theory Spec2Isabelle
  imports Main
begin

section \<open>Python values\<close>

text \<open>
  The values that \<^verbatim>\<open>json_or_text\<close> hands to the client: the result of
  \<^verbatim>\<open>json.loads\<close>, or the text of the body as a Python \<^verbatim>\<open>str\<close> (\<open>JStr\<close>).
  \<open>JNull\<close> is Python's \<^verbatim>\<open>None\<close>. A \<open>JDict\<close> lists the items of a dict in
  insertion order; the keys of a decoded JSON object are strings and occur once.
  JSON numbers with a fraction are left out: no function below computes with them.
\<close>

datatype json =
    JNull
  | JBool bool
  | JInt int
  | JStr string
  | JList "json list"
  | JDict "(string \<times> json) list"

text \<open>Every exception the module raises or lets through, by the name the source uses.\<close>

datatype error =
    InvalidCredentials string
  | InvalidCredentialsOf json
  | TooManyRequests string
  | Forbidden nat json
  | NotFound nat json
  | HTTPException nat json
  | HTTPExceptionOf error
  | HTTPExceptionMsg string
  | LoginError string
  | LoginErrorOf error
  | ClientException string
  | SteamAuthenticatorError string
  | ValueError string
  | KeyError json
  | IndexError
  | TypeError
  | AttributeError
  | NameError
  | ClientOSError
  | ServerDisconnectedError

text \<open>Python's truth value of an object (\<^verbatim>\<open>if x:\<close>, \<^verbatim>\<open>x or y\<close>, \<^verbatim>\<open>not x\<close>).\<close>

fun truthy :: "json \<Rightarrow> bool" where
  "truthy JNull = False"
| "truthy (JBool b) = b"
| "truthy (JInt n) = (n \<noteq> 0)"
| "truthy (JStr s) = (s \<noteq> [])"
| "truthy (JList xs) = (xs \<noteq> [])"
| "truthy (JDict kvs) = (kvs \<noteq> [])"

text \<open>\<^verbatim>\<open>seq[i]\<close> on a list or a string: a negative index counts from the end.\<close>

definition py_index :: "'a list \<Rightarrow> int \<Rightarrow> error + 'a" where
  "py_index xs i =
     (if 0 \<le> i \<and> i < int (length xs) then Inr (xs ! nat i)
      else if i < 0 \<and> - int (length xs) \<le> i then Inr (xs ! nat (int (length xs) + i))
      else Inl IndexError)"

text \<open>
  \<^verbatim>\<open>obj[key]\<close>. A dict raises \<^verbatim>\<open>KeyError\<close> for a hashable key it does not hold
  and \<^verbatim>\<open>TypeError\<close> for an unhashable one (a list or a dict); a list or a string takes
  an integer (a bool is one); nothing else can be subscripted.
\<close>

fun py_getitem :: "json \<Rightarrow> json \<Rightarrow> error + json" where
  "py_getitem (JDict kvs) (JStr k) =
     (case map_of kvs k of None \<Rightarrow> Inl (KeyError (JStr k)) | Some v \<Rightarrow> Inr v)"
| "py_getitem (JDict kvs) (JList ys) = Inl TypeError"
| "py_getitem (JDict kvs) (JDict ys) = Inl TypeError"
| "py_getitem (JDict kvs) k = Inl (KeyError k)"
| "py_getitem (JList xs) (JInt i) = py_index xs i"
| "py_getitem (JList xs) (JBool b) = py_index xs (if b then 1 else 0)"
| "py_getitem (JList xs) k = Inl TypeError"
| "py_getitem (JStr s) (JInt i) = map_sum id (\<lambda>c. JStr [c]) (py_index s i)"
| "py_getitem (JStr s) (JBool b) = map_sum id (\<lambda>c. JStr [c]) (py_index s (if b then 1 else 0))"
| "py_getitem (JStr s) k = Inl TypeError"
| "py_getitem obj k = Inl TypeError"

text \<open>\<^verbatim>\<open>d.get(key, default)\<close> with a string key; only a dict has the method.\<close>

fun py_get :: "json \<Rightarrow> string \<Rightarrow> json \<Rightarrow> error + json" where
  "py_get (JDict kvs) k dflt = Inr (case map_of kvs k of None \<Rightarrow> dflt | Some v \<Rightarrow> v)"
| "py_get obj k dflt = Inl AttributeError"

text \<open>\<^verbatim>\<open>key in d.keys()\<close> with a string key.\<close>

fun py_in_keys :: "string \<Rightarrow> json \<Rightarrow> error + bool" where
  "py_in_keys k (JDict kvs) = Inr (k \<in> set (map fst kvs))"
| "py_in_keys k obj = Inl AttributeError"

text \<open>
  \<^verbatim>\<open>iter(obj)\<close>, as \<^verbatim>\<open>for\<close> and \<^verbatim>\<open>zip\<close> use it: a dict gives its keys, a list
  its elements, a string its characters.
\<close>

fun py_iter :: "json \<Rightarrow> error + json list" where
  "py_iter (JDict kvs) = Inr (map (\<lambda>kv. JStr (fst kv)) kvs)"
| "py_iter (JList xs) = Inr xs"
| "py_iter (JStr s) = Inr (map (\<lambda>c. JStr [c]) s)"
| "py_iter obj = Inl TypeError"

text \<open>
  Python's \<^verbatim>\<open>==\<close> on these values: a bool equals the integer it stands for, lists are
  compared element by element and dicts item by item, whatever the order of insertion.
\<close>

function py_eq :: "json \<Rightarrow> json \<Rightarrow> bool" where
  "py_eq JNull b = (b = JNull)"
| "py_eq (JBool x) b =
     (case b of JBool y \<Rightarrow> x = y | JInt n \<Rightarrow> n = (if x then 1 else 0) | _ \<Rightarrow> False)"
| "py_eq (JInt m) b =
     (case b of JInt n \<Rightarrow> m = n | JBool y \<Rightarrow> m = (if y then 1 else 0) | _ \<Rightarrow> False)"
| "py_eq (JStr s) b = (case b of JStr t \<Rightarrow> s = t | _ \<Rightarrow> False)"
| "py_eq (JList xs) b =
     (case b of JList ys \<Rightarrow> length xs = length ys \<and> list_all (\<lambda>(x, y). py_eq x y) (zip xs ys)
      | _ \<Rightarrow> False)"
| "py_eq (JDict kvs) b =
     (case b of
        JDict kws \<Rightarrow>
          length kvs = length kws \<and>
          list_all (\<lambda>(k, v). case map_of kws k of None \<Rightarrow> False | Some v' \<Rightarrow> py_eq v v') kvs
      | _ \<Rightarrow> False)"
  by pat_completeness auto
termination
proof (relation "measure (\<lambda>p. size (fst p))")
  fix xs :: "json list" and b :: json and ys :: "json list" and z :: "json \<times> json" and x y
  assume "z \<in> set (zip xs ys)" and "(x, y) = z"
  then have "x \<in> set xs" by (auto dest: set_zip_leftD)
  then have "size x < Suc (size_list size xs)" by (simp add: less_Suc_eq_le size_list_estimation')
  then show "((x, y), (JList xs, b)) \<in> measure (\<lambda>p. size (fst p))" by simp
next
  fix kvs :: "(string \<times> json) list" and b :: json and kws :: "(string \<times> json) list"
    and z :: "string \<times> json" and k v and v' :: json
  assume "z \<in> set kvs" and "(k, v) = z"
  then have mem: "(k, v) \<in> set kvs" by simp
  have "size v < size_list (size_prod (\<lambda>x. 0) size) kvs"
    by (rule size_list_estimation[OF mem]) simp
  then show "((v, v'), (JDict kvs, b)) \<in> measure (\<lambda>p. size (fst p))" by simp
qed simp

section \<open>The transport and the client\<close>

text \<open>
  What \<^verbatim>\<open>json_or_text\<close> finds in a response: a body under a content type other than
  JSON (\<open>Text\<close>), a body that \<^verbatim>\<open>json.loads\<close> decodes (\<open>Json\<close>), a body that does
  not decode (\<open>Undecodable\<close>: \<^verbatim>\<open>JSONDecodeError\<close> and \<^verbatim>\<open>UnicodeDecodeError\<close> are both a
  \<^verbatim>\<open>ValueError\<close>), or no content-type header at all (\<open>NoContentType\<close>).
\<close>

datatype payload = Text string | Json json | Undecodable | NoContentType

record response =
  status :: nat
  payload :: payload

fun json_or_text :: "response \<Rightarrow> error + json" where
  "json_or_text r =
     (case payload r of
        Text s \<Rightarrow> Inr (JStr s)
      | Json v \<Rightarrow> Inr v
      | Undecodable \<Rightarrow> Inl (ValueError ''JSONDecodeError'')
      | NoContentType \<Rightarrow> Inl (KeyError (JStr ''content-type'')))"

text \<open>One call of \<^verbatim>\<open>self._session.request\<close>: a response, or an exception of the transport.\<close>

datatype outcome = Got response | Raised error

text \<open>
  \<open>Cipher p m e\<close> stands for \<^verbatim>\<open>b64encode(rsa.encrypt(p.encode('utf-8'), rsa.PublicKey(m, e))).decode()\<close>:
  the padding is random, so the text is kept symbolic.
\<close>

datatype cipher = Cipher string int int

text \<open>
  The requests the modelled methods send, with the fields of their payload that the client
  chooses (\<^verbatim>\<open>donotcache\<close>, the user agent and the constant fields are left out).
\<close>

datatype call =
    GetRsaKey string
  | DoLogin string cipher string json
  | Transfer json json
  | GetPlayerSummaries string json
  | GetTradeOffers string
  | AcceptTrade "string option" json json

datatype event =
    Requested call
  | Slept nat
  | Dispatched string "json list"
  | TaskCreated string
  | SessionClosed
  | HomeFetched
  | CodeGenerated string
  | CodePrompted
  | ConfirmationLookup json
  | ConfirmCalled nat

text \<open>
  Everything outside the module, as the answers it gives: the \<open>i\<close>-th call of
  \<^verbatim>\<open>self._session.request\<close>; the \<open>i\<close>-th GET of \<^verbatim>\<open>/my/home/\<close> with the group
  \<^verbatim>\<open>sessionID\<close> that the pattern finds in its text (\<open>None\<close> when it does not match);
  the builtin \<^verbatim>\<open>int(s, 16)\<close> (\<open>None\<close> when it raises \<^verbatim>\<open>ValueError\<close>);
  \<^verbatim>\<open>generate_one_time_code\<close> and \<^verbatim>\<open>input\<close> at the \<open>i\<close>-th call of \<^verbatim>\<open>code\<close>;
  \<^verbatim>\<open>get_trade_confirmation\<close> at the \<open>i\<close>-th lookup (a handle, or an exception) and
  \<^verbatim>\<open>confirm\<close> on a handle at the \<open>i\<close>-th confirmation.
\<close>

record world =
  http :: "nat \<Rightarrow> outcome"
  home :: "nat \<Rightarrow> error + string option"
  int16 :: "string \<Rightarrow> int option"
  guard_code :: "string \<Rightarrow> nat \<Rightarrow> string"
  typed_code :: "nat \<Rightarrow> string"
  trade_confirmation :: "json \<Rightarrow> nat \<Rightarrow> error + nat"
  confirm_result :: "nat \<Rightarrow> nat \<Rightarrow> error + json"

text \<open>
  The fields of \<^verbatim>\<open>HTTPClient\<close> that the modelled methods read or write, the number of
  calls made so far to each part of the world, and the trace of what the client has done.
\<close>

record client =
  username :: string
  password :: string
  api_key :: string
  shared_secret :: "string option"
  identity_secret :: "string option"
  one_time_code :: "string option"
  session_id :: "string option"
  logged_in :: bool
  user :: "json option"
  confirmation_manager :: bool
  requests :: nat
  pages :: nat
  codes :: nat
  lookups :: nat
  confirms :: nat
  trace :: "event list"

definition emit :: "event \<Rightarrow> client \<Rightarrow> client" where
  "emit e s = s\<lparr>trace := trace s @ [e]\<rparr>"

definition session_request :: "world \<Rightarrow> call \<Rightarrow> client \<Rightarrow> outcome \<times> client" where
  "session_request w c s =
     (http w (requests s), emit (Requested c) (s\<lparr>requests := Suc (requests s)\<rparr>))"

definition sleep :: "nat \<Rightarrow> client \<Rightarrow> client" where
  "sleep n s = emit (Slept n) s"

definition session_close :: "client \<Rightarrow> client" where
  "session_close s = emit SessionClosed s"

section \<open>\<^verbatim>\<open>request\<close>\<close>

definition access_denied :: string where
  "access_denied =
     ''Access is denied. Retrying will not help. Please verify your <pre>key=</pre> parameter''"

text \<open>
  The body of \<^verbatim>\<open>for tries in range(5)\<close>, over the values of \<^verbatim>\<open>tries\<close> still to
  come; \<open>prev\<close> is what \<^verbatim>\<open>r.status\<close> and \<^verbatim>\<open>data\<close> hold from the iteration before,
  which the \<^verbatim>\<open>raise\<close> after the loop reads.
\<close>

fun request_tries ::
  "world \<Rightarrow> call \<Rightarrow> nat list \<Rightarrow> (nat \<times> json) option \<Rightarrow> client \<Rightarrow> (error + json) \<times> client"
where
  "request_tries w c [] prev s =
     (case prev of
        None \<Rightarrow> (Inl NameError, s)
      | Some (st, data) \<Rightarrow> (Inl (HTTPException st data), s))"
| "request_tries w c (tries # rest) prev s =
     (case session_request w c s of
        (Raised e, s1) \<Rightarrow> (Inl e, s1)
      | (Got r, s1) \<Rightarrow>
          (case json_or_text r of
             Inl e \<Rightarrow> (Inl e, s1)
           | Inr data \<Rightarrow>
               if py_eq data (JStr access_denied)
               then (Inl (InvalidCredentials ''Invalid API key''), s1)
               else if 300 > status r \<and> status r \<ge> 200 then (Inr data, s1)
               else if status r = 429
               then (Inl (TooManyRequests ''We are being rate limited try again soon''), s1)
               else if status r \<in> {500, 502}
               then request_tries w c rest (Some (status r, data)) (sleep (1 + tries * 2) s1)
               else if status r = 403 then (Inl (Forbidden (status r) data), s1)
               else if status r = 404 then (Inl (NotFound (status r) data), s1)
               else (Inl (HTTPException (status r) data), s1)))"

definition request :: "world \<Rightarrow> call \<Rightarrow> client \<Rightarrow> (error + json) \<times> client" where
  "request w c s = request_tries w c [0..<5] None s"

section \<open>Logging in\<close>

text \<open>
  \<^verbatim>\<open>int(x, 16)\<close>: a string that the builtin reads, a string that it does not
  (\<^verbatim>\<open>ValueError\<close>), or no string at all (\<^verbatim>\<open>TypeError\<close>).
\<close>

definition py_int16 :: "world \<Rightarrow> json \<Rightarrow> error + int" where
  "py_int16 w x =
     (case x of
        JStr t \<Rightarrow>
          (case int16 w t of
             None \<Rightarrow> Inl (ValueError ''invalid literal for int() with base 16'')
           | Some n \<Rightarrow> Inr n)
      | _ \<Rightarrow> Inl TypeError)"

text \<open>The second \<^verbatim>\<open>try\<close> block of \<^verbatim>\<open>_fetch_rsa_params\<close>, up to its \<^verbatim>\<open>return\<close>.\<close>

definition rsa_params :: "world \<Rightarrow> json \<Rightarrow> error + ((int \<times> int) \<times> json)" where
  "rsa_params w key_response =
     (case py_getitem key_response (JStr ''publickey_mod'') of
        Inl e \<Rightarrow> Inl e
      | Inr m \<Rightarrow>
          (case py_int16 w m of
             Inl e \<Rightarrow> Inl e
           | Inr rsa_mod \<Rightarrow>
               (case py_getitem key_response (JStr ''publickey_exp'') of
                  Inl e \<Rightarrow> Inl e
                | Inr x \<Rightarrow>
                    (case py_int16 w x of
                       Inl e \<Rightarrow> Inl e
                     | Inr rsa_exp \<Rightarrow>
                         (case py_getitem key_response (JStr ''timestamp'') of
                            Inl e \<Rightarrow> Inl e
                          | Inr rsa_timestamp \<Rightarrow> Inr ((rsa_mod, rsa_exp), rsa_timestamp))))))"

definition maximum_repetitions :: nat where
  "maximum_repetitions = 5"

function fetch_rsa_params ::
  "world \<Rightarrow> nat \<Rightarrow> client \<Rightarrow> (error + ((int \<times> int) \<times> json)) \<times> client"
where
  "fetch_rsa_params w current_repetitions s =
     (case request w (GetRsaKey (username s)) s of
        (Inl e, s1) \<Rightarrow> (Inl (LoginErrorOf e), session_close s1)
      | (Inr key_response, s1) \<Rightarrow>
          (case rsa_params w key_response of
             Inr kt \<Rightarrow> (Inr kt, s1)
           | Inl (KeyError k) \<Rightarrow>
               if current_repetitions < maximum_repetitions
               then fetch_rsa_params w (current_repetitions + 1) s1
               else (Inl (ValueError ''Could not obtain rsa-key''), s1)
           | Inl e \<Rightarrow> (Inl e, s1)))"
  by pat_completeness auto
termination
  by (relation "measure (\<lambda>(w, n, s). maximum_repetitions - n)") auto

text \<open>\<^verbatim>\<open>bool(secret)\<close> for a field that holds \<^verbatim>\<open>None\<close> or a string.\<close>

definition secret_set :: "string option \<Rightarrow> bool" where
  "secret_set x = (case x of None \<Rightarrow> False | Some k \<Rightarrow> k \<noteq> [])"

definition code :: "world \<Rightarrow> client \<Rightarrow> string \<times> client" where
  "code w s =
     (let s1 = s\<lparr>codes := Suc (codes s)\<rparr>
      in case shared_secret s of
           None \<Rightarrow> (typed_code w (codes s), emit CodePrompted s1)
         | Some k \<Rightarrow>
             if k \<noteq> [] then (guard_code w k (codes s), emit (CodeGenerated k) s1)
             else (typed_code w (codes s), emit CodePrompted s1))"

text \<open>
  \<^verbatim>\<open>_send_login_request\<close> and \<^verbatim>\<open>_send_login\<close> call each other for as long as the
  server asks for a two-factor code. \<open>fuel\<close> bounds the number of restarts; \<open>None\<close> is a
  run that needs more.
\<close>

fun send_login_request :: "world \<Rightarrow> nat \<Rightarrow> client \<Rightarrow> ((error + json) \<times> client) option"
  and send_login ::
    "world \<Rightarrow> nat \<Rightarrow> json \<Rightarrow> cipher \<Rightarrow> client \<Rightarrow> ((error + json) \<times> client) option"
where
  "send_login_request w fuel s =
     (case fetch_rsa_params w 0 s of
        (Inl e, s1) \<Rightarrow> Some (Inl e, s1)
      | (Inr ((rsa_mod, rsa_exp), rsa_timestamp), s1) \<Rightarrow>
          send_login w fuel rsa_timestamp (Cipher (password s1) rsa_mod rsa_exp) s1)"
| "send_login w fuel rsa_timestamp encrypted_password s =
     (case request w
             (DoLogin (username s) encrypted_password
                (case one_time_code s of None \<Rightarrow> [] | Some c \<Rightarrow> c) rsa_timestamp) s of
        (Inl e, s1) \<Rightarrow> Some (Inl (HTTPExceptionOf e), s1)
      | (Inr login_response, s1) \<Rightarrow>
          (case py_getitem login_response (JStr ''requires_twofactor'') of
             Inl e \<Rightarrow> Some (Inl (HTTPExceptionOf e), s1)
           | Inr v \<Rightarrow>
               if truthy v
               then (case fuel of
                       0 \<Rightarrow> None
                     | Suc fuel' \<Rightarrow>
                         (case code w s1 of
                            (c, s2) \<Rightarrow>
                              (case send_login_request w fuel' (s2\<lparr>one_time_code := Some c\<rparr>) of
                                 None \<Rightarrow> None
                               | Some (Inl e, s3) \<Rightarrow> Some (Inl (HTTPExceptionOf e), s3)
                               | Some (Inr r, s3) \<Rightarrow> Some (Inr r, s3))))
               else Some (Inr login_response, s1)))"

text \<open>The loop of \<^verbatim>\<open>_perform_redirects\<close> over the transfer URLs.\<close>

fun post_transfers :: "world \<Rightarrow> json list \<Rightarrow> json \<Rightarrow> client \<Rightarrow> (error + unit) \<times> client" where
  "post_transfers w [] parameters s = (Inr (), s)"
| "post_transfers w (url # urls) parameters s =
     (case request w (Transfer url parameters) s of
        (Inl e, s1) \<Rightarrow> (Inl e, s1)
      | (Inr r, s1) \<Rightarrow> post_transfers w urls parameters s1)"

definition perform_redirects :: "world \<Rightarrow> json \<Rightarrow> client \<Rightarrow> (error + unit) \<times> client" where
  "perform_redirects w response_dict s =
     (case py_get response_dict ''transfer_parameters'' JNull of
        Inl e \<Rightarrow> (Inl e, s)
      | Inr parameters \<Rightarrow>
          if parameters = JNull
          then (Inl (HTTPExceptionMsg ''Cannot perform redirects after login, no parameters fetched. The Steam API likely is down, please try again later.''), s)
          else (case py_getitem response_dict (JStr ''transfer_urls'') of
                  Inl e \<Rightarrow> (Inl e, s)
                | Inr transfer_urls \<Rightarrow>
                    (case py_iter transfer_urls of
                       Inl e \<Rightarrow> (Inl e, s)
                     | Inr urls \<Rightarrow> post_transfers w urls parameters s)))"

definition assert_valid_credentials :: "world \<Rightarrow> json \<Rightarrow> client \<Rightarrow> (error + unit) \<times> client" where
  "assert_valid_credentials w login_response s =
     (case py_getitem login_response (JStr ''success'') of
        Inl e \<Rightarrow> (Inl e, s)
      | Inr success \<Rightarrow>
          if \<not> truthy success
          then (case py_getitem login_response (JStr ''message'') of
                  Inl e \<Rightarrow> (Inl e, session_close s)
                | Inr message \<Rightarrow> (Inl (InvalidCredentialsOf message), session_close s))
          else (case home w (pages s) of
                  Inl e \<Rightarrow> (Inl e, emit HomeFetched (s\<lparr>pages := Suc (pages s)\<rparr>))
                | Inr None \<Rightarrow> (Inl AttributeError, emit HomeFetched (s\<lparr>pages := Suc (pages s)\<rparr>))
                | Inr (Some sid) \<Rightarrow>
                    (Inr (), emit HomeFetched (s\<lparr>pages := Suc (pages s), session_id := Some sid\<rparr>))))"

definition fetch_profile :: "world \<Rightarrow> json \<Rightarrow> client \<Rightarrow> (error + json) \<times> client" where
  "fetch_profile w user_id64 s =
     (case request w (GetPlayerSummaries (api_key s) user_id64) s of
        (Inl e, s1) \<Rightarrow> (Inl e, s1)
      | (Inr full_resp, s1) \<Rightarrow>
          (case py_getitem full_resp (JStr ''response'') of
             Inl e \<Rightarrow> (Inl e, s1)
           | Inr a \<Rightarrow>
               (case py_getitem a (JStr ''players'') of
                  Inl e \<Rightarrow> (Inl e, s1)
                | Inr b \<Rightarrow>
                    (case py_getitem b (JInt 0) of
                       Inl e \<Rightarrow> (Inl e, s1)
                     | Inr resp \<Rightarrow> (Inr (if truthy resp then resp else JNull), s1)))))"

text \<open>
  \<^verbatim>\<open>login\<close>. The constructors of \<^verbatim>\<open>ClientUser\<close> and \<^verbatim>\<open>ConfirmationManager\<close>
  belong to other modules and are taken to return. The task of the last line is recorded
  under the name of the coroutine the line names, \<^verbatim>\<open>_poll_notifications\<close>, whose body is
  not part of this module.
\<close>

definition login ::
  "world \<Rightarrow> nat \<Rightarrow> string \<Rightarrow> string \<Rightarrow> string \<Rightarrow> string option \<Rightarrow> string option \<Rightarrow> client
    \<Rightarrow> ((error + unit) \<times> client) option"
where
  "login w fuel username' password' api_key' shared_secret' identity_secret' s =
     (case send_login_request w fuel
             (s\<lparr>username := username', password := password', api_key := api_key',
                shared_secret := shared_secret', identity_secret := identity_secret'\<rparr>) of
        None \<Rightarrow> None
      | Some (Inl e, s1) \<Rightarrow> Some (Inl e, s1)
      | Some (Inr login_response, s1) \<Rightarrow>
          (case py_in_keys ''captcha_needed'' login_response of
             Inl e \<Rightarrow> Some (Inl e, s1)
           | Inr True \<Rightarrow>
               Some (Inl (LoginError ''A captcha code is required, please try again later''), s1)
           | Inr False \<Rightarrow>
               (case assert_valid_credentials w login_response s1 of
                  (Inl e, s2) \<Rightarrow> Some (Inl e, s2)
                | (Inr u, s2) \<Rightarrow>
                    (case perform_redirects w login_response s2 of
                       (Inl e, s3) \<Rightarrow> Some (Inl e, s3)
                     | (Inr u', s3) \<Rightarrow>
                         (let s4 = emit (Dispatched ''login'' []) (s3\<lparr>logged_in := True\<rparr>)
                          in case py_getitem login_response (JStr ''transfer_parameters'') of
                               Inl e \<Rightarrow> Some (Inl e, s4)
                             | Inr ps \<Rightarrow>
                                 (case py_getitem ps (JStr ''steamid'') of
                                    Inl e \<Rightarrow> Some (Inl e, s4)
                                  | Inr steamid \<Rightarrow>
                                      (case fetch_profile w steamid s4 of
                                         (Inl e, s5) \<Rightarrow> Some (Inl e, s5)
                                       | (Inr data, s5) \<Rightarrow>
                                           Some (Inr (),
                                             emit (TaskCreated ''_poll_notifications'')
                                               (s5\<lparr>user := Some data,
                                                   confirmation_manager := True\<rparr>)))))))))"

section \<open>Polling trade offers\<close>

text \<open>
  \<^verbatim>\<open>_get_trade_offers\<close> with its default arguments. Each recovery branch awaits a
  further call and has no \<^verbatim>\<open>return\<close>, so the method returns \<^verbatim>\<open>None\<close> there. The
  re-login passes no \<^verbatim>\<open>identity_secret\<close>, which \<^verbatim>\<open>login\<close> then sets to \<^verbatim>\<open>None\<close>.
  \<open>fuel\<close> bounds the depth of the recovery calls.
\<close>

fun get_trade_offers :: "world \<Rightarrow> nat \<Rightarrow> client \<Rightarrow> ((error + json) \<times> client) option" where
  "get_trade_offers w fuel s =
     (case request w (GetTradeOffers (api_key s)) s of
        (Inl (ValueError m), s1) \<Rightarrow>
          (case fuel of
             0 \<Rightarrow> None
           | Suc fuel' \<Rightarrow>
               (case login w fuel' (username s1) (password s1) (api_key s1) (shared_secret s1)
                       None s1 of
                  None \<Rightarrow> None
                | Some (Inl e, s2) \<Rightarrow> Some (Inl e, s2)
                | Some (Inr u, s2) \<Rightarrow>
                    (case get_trade_offers w fuel' s2 of
                       None \<Rightarrow> None
                     | Some (Inl e, s3) \<Rightarrow> Some (Inl e, s3)
                     | Some (Inr offers, s3) \<Rightarrow> Some (Inr JNull, s3))))
      | (Inl ClientOSError, s1) \<Rightarrow>
          (case fuel of
             0 \<Rightarrow> None
           | Suc fuel' \<Rightarrow>
               (case get_trade_offers w fuel' s1 of
                  None \<Rightarrow> None
                | Some (Inl e, s2) \<Rightarrow> Some (Inl e, s2)
                | Some (Inr offers, s2) \<Rightarrow> Some (Inr JNull, s2)))
      | (Inl ServerDisconnectedError, s1) \<Rightarrow>
          (case fuel of
             0 \<Rightarrow> None
           | Suc fuel' \<Rightarrow>
               (case get_trade_offers w fuel' s1 of
                  None \<Rightarrow> None
                | Some (Inl e, s2) \<Rightarrow> Some (Inl e, s2)
                | Some (Inr offers, s2) \<Rightarrow> Some (Inr JNull, s2)))
      | (Inl e, s1) \<Rightarrow> Some (Inl e, s1)
      | (Inr offers, s1) \<Rightarrow>
          (case py_getitem offers (JStr ''response'') of
             Inl e \<Rightarrow> Some (Inl e, s1)
           | Inr response \<Rightarrow> Some (Inr response, s1)))"

text \<open>
  The \<^verbatim>\<open>for\<close> loop of \<^verbatim>\<open>_poll_trades\<close> over the pairs that \<^verbatim>\<open>zip\<close> yields. Its
  first target is named \<^verbatim>\<open>trades_cache\<close>, as the dict is: inside the loop the name holds
  the element that \<^verbatim>\<open>zip\<close> took from the old snapshot, and the condition subscripts that
  element with itself. The trade that \<^verbatim>\<open>_store_trade\<close> builds is recorded by the raw
  offer it is built from.
\<close>

fun compare_trades :: "(json \<times> json) list \<Rightarrow> json \<Rightarrow> client \<Rightarrow> (error + unit) \<times> client" where
  "compare_trades [] trades s = (Inr (), s)"
| "compare_trades ((trades_cache, trade) # rest) trades s =
     (case py_getitem trades_cache trades_cache of
        Inl e \<Rightarrow> (Inl e, s)
      | Inr old \<Rightarrow>
          (case py_getitem trades trade of
             Inl e \<Rightarrow> (Inl e, s)
           | Inr new \<Rightarrow>
               if \<not> py_eq old new
               then compare_trades rest trades (emit (Dispatched ''trade_receive'' [new]) s)
               else compare_trades rest trades s))"

text \<open>
  One turn of \<^verbatim>\<open>while 1\<close>, from the snapshot held in \<^verbatim>\<open>trades_cache\<close> to the one
  held after the turn.
\<close>

definition poll_iteration ::
  "world \<Rightarrow> nat \<Rightarrow> json \<Rightarrow> client \<Rightarrow> ((error + json) \<times> client) option"
where
  "poll_iteration w fuel trades_cache s =
     (case get_trade_offers w fuel s of
        None \<Rightarrow> None
      | Some (Inl e, s1) \<Rightarrow> Some (Inl e, s1)
      | Some (Inr trades, s1) \<Rightarrow>
          if \<not> py_eq trades trades_cache
          then (case py_iter trades_cache of
                  Inl e \<Rightarrow> Some (Inl e, s1)
                | Inr olds \<Rightarrow>
                    (case py_iter trades of
                       Inl e \<Rightarrow> Some (Inl e, s1)
                     | Inr news \<Rightarrow>
                         (case compare_trades (zip olds news) trades s1 of
                            (Inl e, s2) \<Rightarrow> Some (Inl e, s2)
                          | (Inr u, s2) \<Rightarrow> Some (Inr trades, sleep 5 s2))))
          else Some (Inr trades_cache, sleep 5 s1))"

text \<open>\<^verbatim>\<open>_poll_trades\<close>, stopped after \<open>n\<close> turns of its loop.\<close>

fun poll_loop :: "world \<Rightarrow> nat \<Rightarrow> nat \<Rightarrow> json \<Rightarrow> client \<Rightarrow> ((error + json) \<times> client) option" where
  "poll_loop w fuel 0 trades_cache s = Some (Inr trades_cache, s)"
| "poll_loop w fuel (Suc n) trades_cache s =
     (case poll_iteration w fuel trades_cache s of
        None \<Rightarrow> None
      | Some (Inl e, s1) \<Rightarrow> Some (Inl e, s1)
      | Some (Inr trades, s1) \<Rightarrow> poll_loop w fuel n trades s1)"

definition poll_trades :: "world \<Rightarrow> nat \<Rightarrow> nat \<Rightarrow> client \<Rightarrow> ((error + json) \<times> client) option" where
  "poll_trades w fuel n s =
     (case get_trade_offers w fuel s of
        None \<Rightarrow> None
      | Some (Inl e, s1) \<Rightarrow> Some (Inl e, s1)
      | Some (Inr trades_cache, s1) \<Rightarrow> poll_loop w fuel n trades_cache (sleep 5 s1))"

section \<open>Accepting a trade\<close>

datatype accepted = Confirmation nat | Plain json

fun is_dict :: "json \<Rightarrow> bool" where
  "is_dict (JDict kvs) = True"
| "is_dict v = False"

text \<open>
  The body of \<^verbatim>\<open>for tries in range(3)\<close> in \<^verbatim>\<open>accept_user_trade\<close>, over the values of
  \<^verbatim>\<open>tries\<close> still to come. Every path through the body returns or raises.
\<close>

fun confirm_tries :: "world \<Rightarrow> json \<Rightarrow> nat list \<Rightarrow> client \<Rightarrow> (error + accepted) \<times> client" where
  "confirm_tries w trade_id [] s =
     (Inl (ClientException ''Couldn't find a matching confirmation''), s)"
| "confirm_tries w trade_id (tries # rest) s =
     (if \<not> confirmation_manager s then (Inl AttributeError, s)
      else (case trade_confirmation w trade_id (lookups s) of
              Inl e \<Rightarrow> (Inl e, emit (ConfirmationLookup trade_id) (s\<lparr>lookups := Suc (lookups s)\<rparr>))
            | Inr conf \<Rightarrow>
                (let s1 = emit (ConfirmationLookup trade_id) (s\<lparr>lookups := Suc (lookups s)\<rparr>);
                     s2 = emit (ConfirmCalled conf) (s1\<lparr>confirms := Suc (confirms s1)\<rparr>)
                 in case confirm_result w conf (confirms s1) of
                      Inl e \<Rightarrow> (Inl e, s2)
                    | Inr resp \<Rightarrow>
                        if is_dict resp then (Inr (Confirmation conf), s2)
                        else (Inl (SteamAuthenticatorError
                                ''Failed to except the trade, see the log for the response''), s2))))"

definition accept_user_trade ::
  "world \<Rightarrow> json \<Rightarrow> json \<Rightarrow> client \<Rightarrow> (error + accepted) \<times> client"
where
  "accept_user_trade w user_id64 trade_id s =
     (case request w (AcceptTrade (session_id s) trade_id user_id64) s of
        (Inl e, s1) \<Rightarrow> (Inl e, s1)
      | (Inr resp, s1) \<Rightarrow>
          (case py_get resp ''needs_mobile_confirmation'' (JBool False) of
             Inl e \<Rightarrow> (Inl e, s1)
           | Inr needs \<Rightarrow>
               if truthy needs
               then (if secret_set (identity_secret s1)
                     then confirm_tries w trade_id [0..<3] (sleep 2 s1)
                     else (Inl (ClientException ''Accepting trades requires an identity_secret''), s1))
               else (Inr (Plain resp), s1)))"

section \<open>Readings of the world and of the trace\<close>

text \<open>
  The data of the \<open>i\<close>-th response when \<^verbatim>\<open>request\<close> returns it at once: the status is
  a 2xx one, the body decodes and is not the access-denied text.
\<close>

definition success_data :: "world \<Rightarrow> nat \<Rightarrow> json option" where
  "success_data w i =
     (case http w i of
        Raised e \<Rightarrow> None
      | Got r \<Rightarrow>
          if 200 \<le> status r \<and> status r < 300
          then (case json_or_text r of
                  Inl e \<Rightarrow> None
                | Inr d \<Rightarrow> if d = JStr access_denied then None else Some d)
          else None)"

text \<open>The events that record a call of \<^verbatim>\<open>get_trade_confirmation\<close>, and those that
  record a task handed to the event loop.\<close>

fun is_lookup :: "event \<Rightarrow> bool" where
  "is_lookup (ConfirmationLookup t) = True"
| "is_lookup e = False"


section \<open>Scenarios\<close>

text \<open>
  Concrete clients and worlds on which the theorems below are run. A scripted world answers
  the \<open>i\<close>-th request with the \<open>i\<close>-th outcome of a list and drops the connection
  after the last one.
\<close>

definition scripted :: "outcome list \<Rightarrow> nat \<Rightarrow> outcome" where
  "scripted rs i = (if i < length rs then rs ! i else Raised ServerDisconnectedError)"

definition answer :: "nat \<Rightarrow> json \<Rightarrow> outcome" where
  "answer st d = Got \<lparr>status = st, payload = Json d\<rparr>"

definition page :: "nat \<Rightarrow> string \<Rightarrow> outcome" where
  "page st t = Got \<lparr>status = st, payload = Text t\<rparr>"

definition steam :: "outcome list \<Rightarrow> world" where
  "steam rs =
     \<lparr>http = scripted rs,
      home = (\<lambda>i. Inr (Some ''f00dfeed'')),
      int16 = map_of [(''c0de'', 49374), (''beef'', 48879), (''010001'', 65537)],
      guard_code = (\<lambda>k i. ''GUARD''),
      typed_code = (\<lambda>i. ''TYPED''),
      trade_confirmation = (\<lambda>t i. Inr 7),
      confirm_result = (\<lambda>c i. if i = 0 then Inr (JStr ''busy'') else Inr (JDict []))\<rparr>"

definition bot :: client where
  "bot =
     \<lparr>username = ''bot'', password = ''hunter2'', api_key = ''KEY'',
      shared_secret = None, identity_secret = None, one_time_code = None,
      session_id = None, logged_in = False, user = None, confirmation_manager = False,
      requests = 0, pages = 0, codes = 0, lookups = 0, confirms = 0, trace = []\<rparr>"



definition needs_confirmation :: json where
  "needs_confirmation =
     JDict [(''tradeid'', JNull), (''needs_mobile_confirmation'', JBool True),
            (''needs_email_confirmation'', JBool False)]"

definition accept_call :: call where
  "accept_call = AcceptTrade None (JStr ''4001'') (JInt 76561198000000001)"

definition snapshot_2 :: json where
  "snapshot_2 = JDict [(''123'', JDict [(''trade_offer_state'', JInt 2)])]"

definition snapshot_3 :: json where
  "snapshot_3 = JDict [(''123'', JDict [(''trade_offer_state'', JInt 3)])]"

definition offers :: "json \<Rightarrow> outcome" where
  "offers snapshot = answer 200 (JDict [(''response'', snapshot)])"

definition key_reply_1 :: json where
  "key_reply_1 =
     JDict [(''success'', JBool True), (''publickey_mod'', JStr ''c0de''),
            (''publickey_exp'', JStr ''010001''), (''timestamp'', JStr ''1000'')]"


definition no_key :: "outcome list" where
  "no_key = replicate 7 (answer 200 (JDict [(''success'', JBool False)]))"

definition bad_modulus :: "outcome list" where
  "bad_modulus = replicate 7 (answer 200 (JDict [(''publickey_mod'', JStr ''zz'')]))"

definition login_captcha :: json where
  "login_captcha =
     JDict [(''success'', JBool False), (''requires_twofactor'', JBool False),
            (''message'', JStr ''Please verify your humanity''),
            (''captcha_needed'', JBool True), (''captcha_gid'', JStr ''42'')]"


definition transfer_parameters :: json where
  "transfer_parameters =
     JDict [(''steamid'', JStr ''76561198000000000''), (''token_secure'', JStr ''c0ffee''),
            (''remember_login'', JBool True)]"

definition store_url :: json where
  "store_url = JStr ''https://store.steampowered.com/login/transfer''"

definition help_url :: json where
  "help_url = JStr ''https://help.steampowered.com/en/login/transfer''"

definition login_ok :: json where
  "login_ok =
     JDict [(''success'', JBool True), (''requires_twofactor'', JBool False),
            (''login_complete'', JBool True),
            (''transfer_urls'', JList [store_url, help_url]),
            (''transfer_parameters'', transfer_parameters)]"

definition profile :: json where
  "profile = JDict [(''steamid'', JStr ''76561198000000000''), (''personaname'', JStr ''bot'')]"

definition profile_reply :: json where
  "profile_reply = JDict [(''response'', JDict [(''players'', JList [profile])])]"

definition happy :: "outcome list" where
  "happy = [answer 200 key_reply_1, answer 200 login_ok, page 200 ''ok'', page 200 ''ok'',
            answer 200 profile_reply]"


definition captcha :: "outcome list" where
  "captcha = [answer 200 key_reply_1, answer 200 login_captcha]"

definition happy_trace :: "event list" where
  "happy_trace =
     [Requested (GetRsaKey ''bot''),
      Requested (DoLogin ''bot'' (Cipher ''hunter2'' 49374 65537) [] (JStr ''1000'')),
      HomeFetched,
      Requested (Transfer store_url transfer_parameters),
      Requested (Transfer help_url transfer_parameters),
      Dispatched ''login'' [],
      Requested (GetPlayerSummaries ''KEY'' (JStr ''76561198000000000'')),
      TaskCreated ''_poll_notifications'']"

definition expired :: "outcome list" where
  "expired = Got \<lparr>status = 200, payload = Undecodable\<rparr> # happy @ [offers snapshot_3]"

section \<open>Properties of \<^verbatim>\<open>request\<close>\<close>

lemma py_eq_JStr [simp]: "py_eq d (JStr t) \<longleftrightarrow> d = JStr t"
  by (cases d) auto

lemma range5: "[0..<5] = [0, 1, 2, 3, 4::nat]"
  by (simp add: upt_rec)



lemma request_tries_retry:
  assumes "http w (requests s) = Got r"
    and "status r = 500 \<or> status r = 502"
    and "json_or_text r = Inr d"
    and "d \<noteq> JStr access_denied"
  shows "request_tries w c (t # ts) prev s =
    request_tries w c ts (Some (status r, d))
      (s\<lparr>requests := Suc (requests s), trace := trace s @ [Requested c, Slept (1 + t * 2)]\<rparr>)"
  using assms
  by (auto simp: session_request_def sleep_def emit_def simp del: json_or_text.simps)




section \<open>Accepting a trade: properties\<close>

lemma request_tries_frame:
  "request_tries w c ts prev s = (r, s') \<Longrightarrow>
     identity_secret s' = identity_secret s \<and> lookups s' = lookups s
     \<and> confirms s' = confirms s
     \<and> filter is_lookup (trace s') = filter is_lookup (trace s)"
proof (induction ts arbitrary: prev s)
  case Nil
  then show ?case by (auto split: option.splits)
next
  case (Cons t ts)
  show ?case
  proof (cases "http w (requests s)")
    case (Raised e)
    with Cons.prems show ?thesis by (auto simp: session_request_def emit_def)
  next
    case (Got rsp)
    show ?thesis
    proof (cases "json_or_text rsp")
      case (Inl e)
      with Got Cons.prems show ?thesis
        by (auto simp: session_request_def emit_def simp del: json_or_text.simps)
    next
      case (Inr d)
      show ?thesis
      proof (cases "d \<noteq> JStr access_denied \<and> \<not> (300 > status rsp \<and> status rsp \<ge> 200)
                    \<and> status rsp \<noteq> 429 \<and> status rsp \<in> {500, 502}")
        case True
        let ?s1 = "s\<lparr>requests := Suc (requests s),
                      trace := trace s @ [Requested c, Slept (1 + t * 2)]\<rparr>"
        have "request_tries w c (t # ts) prev s =
                request_tries w c ts (Some (status rsp, d)) ?s1"
          using True Got Inr by (intro request_tries_retry) auto
        with Cons.prems Cons.IH[of "Some (status rsp, d)" ?s1]
        show ?thesis by simp
      next
        case False
        with Got Inr Cons.prems show ?thesis
          by (auto simp: session_request_def emit_def simp del: json_or_text.simps
              split: if_splits)
      qed
    qed
  qed
qed

lemma request_frame:
  "request w c s = (r, s') \<Longrightarrow>
     identity_secret s' = identity_secret s \<and> lookups s' = lookups s
     \<and> confirms s' = confirms s
     \<and> filter is_lookup (trace s') = filter is_lookup (trace s)"
  unfolding request_def by (rule request_tries_frame)

text \<open>
  C3. When the response to the accept request is a dict whose
  \<^verbatim>\<open>needs_mobile_confirmation\<close> is true and \<^verbatim>\<open>identity_secret\<close> is \<^verbatim>\<open>None\<close> or
  empty, \<^verbatim>\<open>accept_user_trade\<close> raises
  \<^verbatim>\<open>ClientException('Accepting trades requires an identity_secret')\<close>, the error the
  specification calls ConfirmationUnavailable, in the state the accept request left: no
  call of \<^verbatim>\<open>get_trade_confirmation\<close> is counted or traced.
\<close>

theorem accept_without_identity_secret:
  assumes "request w (AcceptTrade (session_id s) trade_id user_id64) s = (Inr resp, s1)"
    and "py_get resp ''needs_mobile_confirmation'' (JBool False) = Inr needs"
    and "truthy needs"
    and "\<not> secret_set (identity_secret s)"
  shows "accept_user_trade w user_id64 trade_id s =
           (Inl (ClientException ''Accepting trades requires an identity_secret''), s1)
         \<and> lookups s1 = lookups s
         \<and> filter is_lookup (trace s1) = filter is_lookup (trace s)"
  using assms request_frame[OF assms(1)]
  by (simp add: accept_user_trade_def)

theorem accept_without_identity_secret_witness:
  "request (steam [answer 200 needs_confirmation]) accept_call bot =
     (Inr needs_confirmation, bot\<lparr>requests := 1, trace := [Requested accept_call]\<rparr>)
   \<and> py_get needs_confirmation ''needs_mobile_confirmation'' (JBool False) = Inr (JBool True)
   \<and> \<not> secret_set (identity_secret bot)
   \<and> accept_user_trade (steam [answer 200 needs_confirmation])
         (JInt 76561198000000001) (JStr ''4001'') bot =
       (Inl (ClientException ''Accepting trades requires an identity_secret''),
        bot\<lparr>requests := 1, trace := [Requested accept_call]\<rparr>)
   \<and> lookups (bot\<lparr>requests := 1, trace := [Requested accept_call]\<rparr>) = 0"
proof -
  have r: "request (steam [answer 200 needs_confirmation])
             (AcceptTrade (session_id bot) (JStr ''4001'') (JInt 76561198000000001)) bot =
           (Inr needs_confirmation, bot\<lparr>requests := 1, trace := [Requested accept_call]\<rparr>)"
    by (simp add: request_def range5 session_request_def emit_def steam_def scripted_def
        answer_def bot_def needs_confirmation_def accept_call_def access_denied_def)
  have g: "py_get needs_confirmation ''needs_mobile_confirmation'' (JBool False) = Inr (JBool True)"
    by (simp add: needs_confirmation_def)
  have t: "truthy (JBool True)" by simp
  have n: "\<not> secret_set (identity_secret bot)" by (simp add: secret_set_def bot_def)
  have b: "session_id bot = None" by (simp add: bot_def)
  show ?thesis
    using accept_without_identity_secret[OF r g t n] r g n
    by (simp add: accept_call_def b) (simp add: bot_def)
qed

lemma confirm_tries_once:
  "confirm_tries w trade_id ts s = (r, s') \<Longrightarrow> confirms s' \<le> Suc (confirms s)"
  by (cases ts) (auto simp: emit_def Let_def split: if_splits sum.splits)

text \<open>
  C6. The accept response asks for a mobile confirmation, \<^verbatim>\<open>identity_secret\<close> is set,
  the lookup finds the confirmation and the first \<^verbatim>\<open>confirm\<close> returns a text where the
  second would return a dict. The client sleeps 2 seconds, looks the confirmation up once,
  calls \<^verbatim>\<open>confirm\<close> once and raises \<^verbatim>\<open>SteamAuthenticatorError\<close>: the body of
  \<^verbatim>\<open>for tries in range(3)\<close> ends in a \<^verbatim>\<open>raise\<close>, so no second attempt is made.
\<close>

theorem accept_confirms_only_once:
  "confirm_result (steam [answer 200 needs_confirmation]) 7 1 = Inr (JDict [])
   \<and> accept_user_trade (steam [answer 200 needs_confirmation])
         (JInt 76561198000000001) (JStr ''4001'')
         (bot\<lparr>identity_secret := Some ''idsecret'', confirmation_manager := True\<rparr>) =
       (Inl (SteamAuthenticatorError
               ''Failed to except the trade, see the log for the response''),
        bot\<lparr>identity_secret := Some ''idsecret'', confirmation_manager := True,
            requests := 1, lookups := 1, confirms := 1,
            trace := [Requested accept_call, Slept 2, ConfirmationLookup (JStr ''4001''),
                      ConfirmCalled 7]\<rparr>)"
  by (simp add: accept_user_trade_def request_def range5 session_request_def emit_def
      sleep_def steam_def scripted_def answer_def bot_def needs_confirmation_def
      accept_call_def secret_set_def upt_rec access_denied_def)

section \<open>Polling trade offers: properties\<close>

lemma py_getitem_self: "py_getitem x x = Inl TypeError"
  by (cases x) simp_all

lemma compare_trades_raises:
  "compare_trades ps trades s = (if ps = [] then Inr () else Inl TypeError, s)"
  by (cases ps) (auto simp: py_getitem_self)

text \<open>
  C1. The snapshot held is \<^verbatim>\<open>{"123": {"trade_offer_state": 2}}\<close> and the one fetched is
  \<^verbatim>\<open>{"123": {"trade_offer_state": 3}}\<close>: offer 123 is in both and has changed. The turn
  of the loop raises \<^verbatim>\<open>TypeError\<close> at \<^verbatim>\<open>trades_cache[trades_cache]\<close>, where the name
  holds the key \<^verbatim>\<open>"123"\<close>, and dispatches nothing. So does the poller started
  on a server that answers with the first snapshot and then with the second.
\<close>

theorem poll_iteration_changed_offer:
  "poll_iteration (steam [offers snapshot_3]) 0 snapshot_2 bot =
     Some (Inl TypeError,
           bot\<lparr>requests := 1, trace := [Requested (GetTradeOffers ''KEY'')]\<rparr>)
   \<and> poll_trades (steam [offers snapshot_2, offers snapshot_3]) 0 1 bot =
     Some (Inl TypeError,
           bot\<lparr>requests := 2,
               trace := [Requested (GetTradeOffers ''KEY''), Slept 5,
                         Requested (GetTradeOffers ''KEY'')]\<rparr>)"
  by (simp add: poll_trades_def poll_iteration_def request_def range5 session_request_def
      emit_def sleep_def steam_def scripted_def answer_def bot_def offers_def snapshot_2_def
      snapshot_3_def access_denied_def)

lemma get_trade_offers_recovery:
  assumes "request w (GetTradeOffers (api_key s)) s = (Inl e, s1)"
    and "e = ClientOSError \<or> e = ServerDisconnectedError \<or> (\<exists>m. e = ValueError m)"
    and "get_trade_offers w fuel s = Some (Inr v, s')"
  shows "v = JNull"
  using assms
  by (cases fuel) (auto split: option.splits sum.splits prod.splits)

text \<open>
  C7. The first fetch is cut off by \<^verbatim>\<open>ServerDisconnectedError\<close> and the retried one is
  answered with the snapshot. \<^verbatim>\<open>_get_trade_offers\<close> makes both requests and returns
  \<^verbatim>\<open>None\<close>, where the second fetch on its own returns the snapshot.
\<close>

theorem get_trade_offers_after_disconnect:
  "get_trade_offers (steam [Raised ServerDisconnectedError, offers snapshot_3]) 1 bot =
     Some (Inr JNull,
           bot\<lparr>requests := 2,
               trace := [Requested (GetTradeOffers ''KEY''), Requested (GetTradeOffers ''KEY'')]\<rparr>)
   \<and> get_trade_offers (steam [offers snapshot_3]) 0 bot =
     Some (Inr snapshot_3,
           bot\<lparr>requests := 1, trace := [Requested (GetTradeOffers ''KEY'')]\<rparr>)"
  by (simp add: request_def range5 session_request_def emit_def sleep_def
      steam_def scripted_def answer_def bot_def offers_def snapshot_3_def access_denied_def)

section \<open>Fetching the RSA key: properties\<close>

declare fetch_rsa_params.simps [simp del]

lemma success_dataD:
  assumes "success_data w i = Some d"
  obtains r where "http w i = Got r" and "200 \<le> status r" and "status r < 300"
    and "json_or_text r = Inr d" and "d \<noteq> JStr access_denied"
proof (cases "http w i")
  case (Raised e)
  with assms show ?thesis by (simp add: success_data_def)
next
  case (Got r)
  show ?thesis
  proof (cases "json_or_text r")
    case (Inl e)
    with Got assms show ?thesis
      by (simp add: success_data_def del: json_or_text.simps split: if_splits)
  next
    case (Inr d')
    with Got assms that[of r] show ?thesis
      by (simp add: success_data_def del: json_or_text.simps split: if_splits)
  qed
qed

lemma request_success:
  assumes "success_data w (requests s) = Some d"
  shows "request w c s =
    (Inr d, s\<lparr>requests := Suc (requests s), trace := trace s @ [Requested c]\<rparr>)"
proof -
  from assms obtain r where "http w (requests s) = Got r" and "200 \<le> status r"
    and "status r < 300" and "json_or_text r = Inr d" and "d \<noteq> JStr access_denied"
    by (rule success_dataD)
  then show ?thesis
    by (simp add: request_def range5 session_request_def emit_def del: json_or_text.simps)
qed

lemma fetch_rsa_params_retry:
  assumes "success_data w (requests s) = Some d"
    and "rsa_params w d = Inl (KeyError k)"
    and "n < 5"
  shows "fetch_rsa_params w n s =
    fetch_rsa_params w (Suc n)
      (s\<lparr>requests := Suc (requests s), trace := trace s @ [Requested (GetRsaKey (username s))]\<rparr>)"
  using assms
  by (subst fetch_rsa_params.simps) (simp add: request_success maximum_repetitions_def)

lemma fetch_rsa_params_last:
  assumes "success_data w (requests s) = Some d"
    and "rsa_params w d = Inl (KeyError k)"
  shows "fetch_rsa_params w 5 s =
    (Inl (ValueError ''Could not obtain rsa-key''),
     s\<lparr>requests := Suc (requests s), trace := trace s @ [Requested (GetRsaKey (username s))]\<rparr>)"
  using assms
  by (subst fetch_rsa_params.simps) (simp add: request_success maximum_repetitions_def)

lemma fetch_rsa_params_from:
  assumes "n \<le> 5"
    and "\<And>j. n \<le> j \<Longrightarrow> j \<le> 5 \<Longrightarrow> success_data w (requests s + (j - n)) = Some (ds j)"
    and "\<And>j. n \<le> j \<Longrightarrow> j \<le> 5 \<Longrightarrow> rsa_params w (ds j) = Inl (KeyError (ks j))"
  shows "fetch_rsa_params w n s =
    (Inl (ValueError ''Could not obtain rsa-key''),
     s\<lparr>requests := requests s + (6 - n),
       trace := trace s @ replicate (6 - n) (Requested (GetRsaKey (username s)))\<rparr>)"
  using assms
proof (induction "5 - n" arbitrary: n s)
  case 0
  then have n: "n = 5" by simp
  have "success_data w (requests s) = Some (ds 5)" using "0.prems"(2)[of 5] n by simp
  moreover have "rsa_params w (ds 5) = Inl (KeyError (ks 5))" using "0.prems"(3)[of 5] n by simp
  ultimately show ?case using n by (simp add: fetch_rsa_params_last)
next
  case (Suc k)
  then have n: "n < 5" by simp
  let ?s1 = "s\<lparr>requests := Suc (requests s),
                trace := trace s @ [Requested (GetRsaKey (username s))]\<rparr>"
  have d: "success_data w (requests s) = Some (ds n)" using Suc.prems(2)[of n] n by simp
  have e: "rsa_params w (ds n) = Inl (KeyError (ks n))" using Suc.prems(3)[of n] n by simp
  have step: "fetch_rsa_params w n s = fetch_rsa_params w (Suc n) ?s1"
    by (rule fetch_rsa_params_retry[OF d e n])
  have k: "k = 5 - Suc n" using Suc.hyps(2) by simp
  have le: "Suc n \<le> 5" using n by simp
  have a: "success_data w (requests ?s1 + (j - Suc n)) = Some (ds j)"
    if "Suc n \<le> j" "j \<le> 5" for j
  proof -
    have "requests ?s1 + (j - Suc n) = requests s + (j - n)" using that by simp
    then show ?thesis using Suc.prems(2)[of j] that by simp
  qed
  have b: "rsa_params w (ds j) = Inl (KeyError (ks j))" if "Suc n \<le> j" "j \<le> 5" for j
    using Suc.prems(3)[of j] that by simp
  have six: "6 - n = Suc (6 - Suc n)" using n by simp
  show ?case
    unfolding step
    by (subst Suc.hyps(1)[OF k le a b]) (simp_all add: six replicate_append_same)
qed

text \<open>
  C2, as amended. When each of six successive responses is returned by \<^verbatim>\<open>request\<close> and
  makes the reading of \<^verbatim>\<open>publickey_mod\<close>, \<^verbatim>\<open>publickey_exp\<close> and \<^verbatim>\<open>timestamp\<close> raise
  \<^verbatim>\<open>KeyError\<close>, \<^verbatim>\<open>_fetch_rsa_params\<close> makes the first request and five more, six in
  all, and then raises \<^verbatim>\<open>ValueError('Could not obtain rsa-key')\<close>, the error the
  specification calls KeyFetchError; it asks for no seventh response.
\<close>

theorem fetch_rsa_params_gives_up:
  assumes "\<And>i. i < 6 \<Longrightarrow> success_data w (requests s + i) = Some (ds i)"
    and "\<And>i. i < 6 \<Longrightarrow> rsa_params w (ds i) = Inl (KeyError (ks i))"
  shows "fetch_rsa_params w 0 s =
    (Inl (ValueError ''Could not obtain rsa-key''),
     s\<lparr>requests := requests s + 6,
       trace := trace s @ replicate 6 (Requested (GetRsaKey (username s)))\<rparr>)"
  using fetch_rsa_params_from[of 0 w s ds ks] assms by simp

theorem fetch_rsa_params_gives_up_witness:
  "fetch_rsa_params (steam no_key) 0 bot =
    (Inl (ValueError ''Could not obtain rsa-key''),
     bot\<lparr>requests := 6, trace := replicate 6 (Requested (GetRsaKey ''bot''))\<rparr>)"
proof -
  let ?d = "JDict [(''success'', JBool False)]"
  have a: "i < 6 \<Longrightarrow> success_data (steam no_key) (requests bot + i) = Some ?d" for i :: nat
    by (simp add: success_data_def steam_def scripted_def no_key_def answer_def bot_def
        access_denied_def)
  have b: "i < 6 \<Longrightarrow> rsa_params (steam no_key) ?d = Inl (KeyError (JStr ''publickey_mod''))"
    for i :: nat
    by (simp add: rsa_params_def)
  show ?thesis
    using fetch_rsa_params_gives_up
      [of "steam no_key" bot "\<lambda>i. ?d" "\<lambda>i. JStr ''publickey_mod''", OF a b]
    by (simp add: bot_def)
qed

text \<open>
  Two runs in which every response lacks a field. With no field at all the sixth such
  response is asked for before the fetch gives up. With \<^verbatim>\<open>publickey_mod\<close> present
  but not in base 16 and the other two fields missing, \<^verbatim>\<open>int\<close> raises
  \<^verbatim>\<open>ValueError\<close> on the first response and nothing is retried.
\<close>

theorem fetch_rsa_params_sixth_and_unparsed:
  "http (steam no_key) 5 = answer 200 (JDict [(''success'', JBool False)])
   \<and> requests (snd (fetch_rsa_params (steam no_key) 0 bot)) = 6
   \<and> fetch_rsa_params (steam bad_modulus) 0 bot =
       (Inl (ValueError ''invalid literal for int() with base 16''),
        bot\<lparr>requests := 1, trace := [Requested (GetRsaKey ''bot'')]\<rparr>)"
proof -
  let ?d = "JDict [(''success'', JBool False)]"
  have a: "http (steam no_key) 5 = answer 200 ?d"
    by (simp add: steam_def scripted_def no_key_def eval_nat_numeral)
  have "success_data (steam no_key) (requests bot + (j - 0)) = Some ?d" if "j \<le> 5" for j
    using that
    by (simp add: success_data_def steam_def scripted_def no_key_def answer_def bot_def
        access_denied_def)
  moreover have "rsa_params (steam no_key) ?d = Inl (KeyError (JStr ''publickey_mod''))"
    by (simp add: rsa_params_def)
  ultimately have b: "requests (snd (fetch_rsa_params (steam no_key) 0 bot)) = 6"
    using fetch_rsa_params_from[of 0 "steam no_key" bot "\<lambda>i. ?d" "\<lambda>i. JStr ''publickey_mod''"]
    by (simp add: bot_def)
  have r: "request (steam bad_modulus) (GetRsaKey (username bot)) bot =
             (Inr (JDict [(''publickey_mod'', JStr ''zz'')]),
              bot\<lparr>requests := Suc (requests bot),
                  trace := trace bot @ [Requested (GetRsaKey (username bot))]\<rparr>)"
    by (rule request_success)
      (simp add: success_data_def steam_def scripted_def bad_modulus_def answer_def bot_def
        access_denied_def)
  have p: "rsa_params (steam bad_modulus) (JDict [(''publickey_mod'', JStr ''zz'')]) =
             Inl (ValueError ''invalid literal for int() with base 16'')"
    by (simp add: rsa_params_def py_int16_def steam_def)
  have c: "fetch_rsa_params (steam bad_modulus) 0 bot =
       (Inl (ValueError ''invalid literal for int() with base 16''),
        bot\<lparr>requests := 1, trace := [Requested (GetRsaKey ''bot'')]\<rparr>)"
    by (subst fetch_rsa_params.simps) (simp add: r p, simp add: bot_def)
  from a b c show ?thesis by simp
qed

section \<open>Logging in: properties\<close>

declare send_login_request.simps [simp del]
declare send_login.simps [simp del]

lemma fetch_rsa_params_ok:
  assumes "success_data w (requests s) = Some d"
    and "rsa_params w d = Inr kt"
  shows "fetch_rsa_params w n s =
    (Inr kt,
     s\<lparr>requests := Suc (requests s), trace := trace s @ [Requested (GetRsaKey (username s))]\<rparr>)"
  by (subst fetch_rsa_params.simps) (simp add: request_success assms)

lemma send_login_plain:
  assumes "success_data w (requests s) = Some resp"
    and "py_getitem resp (JStr ''requires_twofactor'') = Inr v"
    and "\<not> truthy v"
  shows "send_login w fuel ts enc s =
    Some (Inr resp,
          s\<lparr>requests := Suc (requests s),
            trace := trace s @
              [Requested (DoLogin (username s) enc
                 (case one_time_code s of None \<Rightarrow> [] | Some c \<Rightarrow> c) ts)]\<rparr>)"
  by (subst send_login.simps) (simp add: request_success assms)

lemma send_login_request_plain:
  assumes "success_data w (requests s) = Some kd"
    and "rsa_params w kd = Inr ((m, e), ts)"
    and "success_data w (Suc (requests s)) = Some resp"
    and "py_getitem resp (JStr ''requires_twofactor'') = Inr v"
    and "\<not> truthy v"
  shows "send_login_request w fuel s =
    Some (Inr resp,
          s\<lparr>requests := Suc (Suc (requests s)),
            trace := trace s @
              [Requested (GetRsaKey (username s)),
               Requested (DoLogin (username s) (Cipher (password s) m e)
                 (case one_time_code s of None \<Rightarrow> [] | Some c \<Rightarrow> c) ts)]\<rparr>)"
  by (subst send_login_request.simps)
    (simp add: fetch_rsa_params_ok[OF assms(1,2)] send_login_plain[OF _ assms(4,5)] assms(3))








lemma post_transfers_ok:
  assumes "\<And>i. i < length urls \<Longrightarrow> success_data w (requests s + i) \<noteq> None"
  shows "post_transfers w urls ps s =
    (Inr (),
     s\<lparr>requests := requests s + length urls,
       trace := trace s @ map (\<lambda>url. Requested (Transfer url ps)) urls\<rparr>)"
  using assms
proof (induction urls arbitrary: s)
  case Nil
  then show ?case by simp
next
  case (Cons u us)
  let ?s1 = "s\<lparr>requests := Suc (requests s), trace := trace s @ [Requested (Transfer u ps)]\<rparr>"
  from Cons.prems[of 0] obtain d where "success_data w (requests s) = Some d" by auto
  then have step: "request w (Transfer u ps) s = (Inr d, ?s1)" by (rule request_success)
  have "success_data w (requests ?s1 + i) \<noteq> None" if "i < length us" for i
    using Cons.prems[of "Suc i"] that by simp
  from Cons.IH[of ?s1, OF this] show ?case by (simp add: step)
qed

lemma login_succeeds:
  assumes key: "success_data w (requests s) = Some kd" "rsa_params w kd = Inr ((m, e), ts)"
    and sub: "success_data w (requests s + 1) = Some (JDict kvs)"
    and tf: "map_of kvs ''requires_twofactor'' = Some tf" "\<not> truthy tf"
    and cap: "''captcha_needed'' \<notin> fst ` set kvs"
    and ok: "map_of kvs ''success'' = Some ok" "truthy ok"
    and hm: "home w (pages s) = Inr (Some sid)"
    and tp: "map_of kvs ''transfer_parameters'' = Some ps" "ps \<noteq> JNull"
      "py_getitem ps (JStr ''steamid'') = Inr steamid"
    and tu: "map_of kvs ''transfer_urls'' = Some us" "py_iter us = Inr urls"
    and tr: "\<And>i. i < length urls \<Longrightarrow> success_data w (requests s + 2 + i) \<noteq> None"
    and pr: "success_data w (requests s + 2 + length urls) = Some pd"
      "py_getitem pd (JStr ''response'') = Inr pa" "py_getitem pa (JStr ''players'') = Inr pb"
      "py_getitem pb (JInt 0) = Inr prof"
  shows "login w fuel u p k ss ids s =
    Some (Inr (),
      s\<lparr>username := u, password := p, api_key := k, shared_secret := ss,
        identity_secret := ids, session_id := Some sid, logged_in := True,
        user := Some (if truthy prof then prof else JNull), confirmation_manager := True,
        requests := requests s + 3 + length urls, pages := Suc (pages s),
        trace := trace s @
          [Requested (GetRsaKey u),
           Requested (DoLogin u (Cipher p m e)
                        (case one_time_code s of None \<Rightarrow> [] | Some c \<Rightarrow> c) ts),
           HomeFetched] @
          map (\<lambda>url. Requested (Transfer url ps)) urls @
          [Dispatched ''login'' [], Requested (GetPlayerSummaries k steamid),
           TaskCreated ''_poll_notifications'']\<rparr>)"
proof -
  let ?otc = "case one_time_code s of None \<Rightarrow> [] | Some c \<Rightarrow> c"
  let ?s0 = "s\<lparr>username := u, password := p, api_key := k, shared_secret := ss,
                identity_secret := ids\<rparr>"
  let ?s1 = "?s0\<lparr>requests := Suc (Suc (requests s)),
                  trace := trace s @ [Requested (GetRsaKey u),
                                      Requested (DoLogin u (Cipher p m e) ?otc ts)]\<rparr>"
  let ?s2 = "?s1\<lparr>pages := Suc (pages s), session_id := Some sid,
                  trace := trace ?s1 @ [HomeFetched]\<rparr>"
  let ?s3 = "?s2\<lparr>requests := requests ?s2 + length urls,
                  trace := trace ?s2 @ map (\<lambda>url. Requested (Transfer url ps)) urls\<rparr>"
  let ?s4 = "?s3\<lparr>logged_in := True, trace := trace ?s3 @ [Dispatched ''login'' []]\<rparr>"
  let ?s5 = "?s4\<lparr>requests := Suc (requests ?s4),
                  trace := trace ?s4 @ [Requested (GetPlayerSummaries k steamid)]\<rparr>"
  have g: "py_getitem (JDict kvs) (JStr ''requires_twofactor'') = Inr tf"
    using tf(1) by simp
  have a: "send_login_request w fuel ?s0 = Some (Inr (JDict kvs), ?s1)"
    by (subst send_login_request_plain[where kd = kd and m = m and e = e and ts = ts
          and resp = "JDict kvs" and v = tf])
      (use key sub g tf(2) in simp_all)
  have b: "py_in_keys ''captcha_needed'' (JDict kvs) = Inr False"
    using cap by simp
  have c: "assert_valid_credentials w (JDict kvs) ?s1 = (Inr (), ?s2)"
    using ok hm by (simp add: assert_valid_credentials_def emit_def)
  have "success_data w (requests ?s2 + i) \<noteq> None" if "i < length urls" for i
    using tr[OF that] by simp
  then have "post_transfers w urls ps ?s2 = (Inr (), ?s3)"
    by (rule post_transfers_ok)
  then have d: "perform_redirects w (JDict kvs) ?s2 = (Inr (), ?s3)"
    using tp(1,2) tu by (simp add: perform_redirects_def)
  have "success_data w (requests ?s4) = Some pd"
    using pr(1) by (simp add: add.commute add.left_commute)
  then have "request w (GetPlayerSummaries (api_key ?s4) steamid) ?s4 = (Inr pd, ?s5)"
    by (subst request_success[where d = pd]) simp_all
  then have f: "fetch_profile w steamid ?s4 = (Inr (if truthy prof then prof else JNull), ?s5)"
    using pr(2-4) by (simp add: fetch_profile_def)
  have h: "py_getitem (JDict kvs) (JStr ''transfer_parameters'') = Inr ps"
    using tp(1) by simp
  have s4: "emit (Dispatched ''login'' []) (?s3\<lparr>logged_in := True\<rparr>) = ?s4"
    by (simp add: emit_def)
  show ?thesis
    unfolding login_def
    by (simp only: a b c d h tp(3) s4 f option.case prod.case sum.case bool.case Let_def)
      (simp add: emit_def)
qed






section \<open>Polling after a lost session\<close>

lemma expired_data:
  "success_data (steam expired) (Suc 0) = Some key_reply_1"
  "success_data (steam expired) (Suc (Suc 0)) = Some login_ok"
  "success_data (steam expired) 3 = Some (JStr ''ok'')"
  "success_data (steam expired) 4 = Some (JStr ''ok'')"
  "success_data (steam expired) 5 = Some profile_reply"
  "success_data (steam expired) 6 = Some (JDict [(''response'', snapshot_3)])"
  "success_data (steam expired) (Suc (Suc (Suc 0))) = Some (JStr ''ok'')"
  "success_data (steam expired) (Suc (Suc (Suc (Suc 0)))) = Some (JStr ''ok'')"
  "success_data (steam expired) (Suc (Suc (Suc (Suc (Suc 0))))) = Some profile_reply"
  by (simp_all add: success_data_def steam_def scripted_def expired_def happy_def answer_def
      page_def offers_def key_reply_1_def login_ok_def profile_reply_def access_denied_def
      eval_nat_numeral)

lemma get_trade_offers_relogin:
  assumes "request w (GetTradeOffers (api_key s)) s = (Inl (ValueError m), s1)"
    and "login w fuel (username s1) (password s1) (api_key s1) (shared_secret s1) None s1 =
           Some (Inr (), s2)"
    and "get_trade_offers w fuel s2 = Some (Inr v, s3)"
  shows "get_trade_offers w (Suc fuel) s = Some (Inr JNull, s3)"
  by (subst get_trade_offers.simps) (simp add: assms del: get_trade_offers.simps)

text \<open>
  The first fetch is answered with a body that does not decode, which \<^verbatim>\<open>request\<close>
  lets through as a \<^verbatim>\<open>ValueError\<close>. The client logs in again with the stored
  credentials, which sets \<^verbatim>\<open>identity_secret\<close> to \<^verbatim>\<open>None\<close>, fetches the offers
  again and returns \<^verbatim>\<open>None\<close>.
\<close>

lemma get_trade_offers_after_relogin:
  "get_trade_offers (steam expired) 1 (bot\<lparr>identity_secret := Some ''idsecret''\<rparr>) =
     Some (Inr JNull,
       bot\<lparr>identity_secret := None, session_id := Some ''f00dfeed'', logged_in := True,
           user := Some profile, confirmation_manager := True, requests := 7, pages := 1,
           trace := Requested (GetTradeOffers ''KEY'') # happy_trace @
                    [Requested (GetTradeOffers ''KEY'')]\<rparr>)"
proof -
  let ?w = "steam expired"
  let ?s0 = "bot\<lparr>identity_secret := Some ''idsecret''\<rparr>"
  let ?s1 = "?s0\<lparr>requests := 1, trace := [Requested (GetTradeOffers ''KEY'')]\<rparr>"
  let ?s2 = "bot\<lparr>identity_secret := None, session_id := Some ''f00dfeed'',
                 logged_in := True, user := Some profile,
                 confirmation_manager := True, requests := 6, pages := 1,
                 trace := Requested (GetTradeOffers ''KEY'') # happy_trace\<rparr>"
  let ?kvs = "[(''success'', JBool True), (''requires_twofactor'', JBool False),
               (''login_complete'', JBool True),
               (''transfer_urls'', JList [store_url, help_url]),
               (''transfer_parameters'', transfer_parameters)]"
  let ?id = "JStr ''76561198000000000''"
  have a: "request ?w (GetTradeOffers (api_key ?s0)) ?s0 = (Inl (ValueError ''JSONDecodeError''), ?s1)"
    by (simp add: request_def range5 session_request_def emit_def steam_def scripted_def
        expired_def bot_def)
  have k1: "success_data ?w (requests ?s1) = Some key_reply_1"
    by (simp add: expired_data)
  have k2: "rsa_params ?w key_reply_1 = Inr ((49374, 65537), JStr ''1000'')"
    by (simp add: rsa_params_def py_int16_def steam_def key_reply_1_def)
  have s1: "success_data ?w (requests ?s1 + 1) = Some (JDict ?kvs)"
    using expired_data(2) by (simp add: login_ok_def)
  have t1: "map_of ?kvs ''requires_twofactor'' = Some (JBool False)" by simp
  have t2: "\<not> truthy (JBool False)" by simp
  have c1: "''captcha_needed'' \<notin> fst ` set ?kvs" by simp
  have o1: "map_of ?kvs ''success'' = Some (JBool True)" by simp
  have o2: "truthy (JBool True)" by simp
  have h1: "home ?w (pages ?s1) = Inr (Some ''f00dfeed'')" by (simp add: steam_def)
  have p1: "map_of ?kvs ''transfer_parameters'' = Some transfer_parameters" by simp
  have p2: "transfer_parameters \<noteq> JNull" by (simp add: transfer_parameters_def)
  have p3: "py_getitem transfer_parameters (JStr ''steamid'') = Inr ?id"
    by (simp add: transfer_parameters_def)
  have u1: "map_of ?kvs ''transfer_urls'' = Some (JList [store_url, help_url])" by simp
  have u2: "py_iter (JList [store_url, help_url]) = Inr [store_url, help_url]" by simp
  have r1: "success_data ?w (requests ?s1 + 2 + i) \<noteq> None"
    if "i < length [store_url, help_url]" for i
  proof -
    from that consider "i = 0" | "i = 1" by fastforce
    then show ?thesis by cases (simp_all add: expired_data)
  qed
  have f1: "success_data ?w (requests ?s1 + 2 + length [store_url, help_url]) = Some profile_reply"
    by (simp add: expired_data)
  have f2: "py_getitem profile_reply (JStr ''response'') =
              Inr (JDict [(''players'', JList [profile])])"
    by (simp add: profile_reply_def)
  have f3: "py_getitem (JDict [(''players'', JList [profile])]) (JStr ''players'') =
              Inr (JList [profile])"
    by simp
  have f4: "py_getitem (JList [profile]) (JInt 0) = Inr profile"
    by (simp add: py_index_def)
  have tp: "truthy profile" by (simp add: profile_def)
  have b: "login ?w 0 (username ?s1) (password ?s1) (api_key ?s1) (shared_secret ?s1) None ?s1 =
             Some (Inr (), ?s2)"
    using login_succeeds
        [of ?w ?s1 key_reply_1 49374 65537 "JStr ''1000''" ?kvs "JBool False" "JBool True"
          "''f00dfeed''" transfer_parameters ?id "JList [store_url, help_url]"
          "[store_url, help_url]" profile_reply "JDict [(''players'', JList [profile])]"
          "JList [profile]" profile 0 "''bot''" "''hunter2''" "''KEY''" None None,
        OF k1 k2 s1 t1 t2 c1 o1 o2 h1 p1 p2 p3 u1 u2 r1 f1 f2 f3 f4]
    by (simp add: tp bot_def happy_trace_def)
  have c: "get_trade_offers ?w 0 ?s2 =
             Some (Inr snapshot_3,
                   ?s2\<lparr>requests := 7,
                       trace := Requested (GetTradeOffers ''KEY'') # happy_trace @
                                [Requested (GetTradeOffers ''KEY'')]\<rparr>)"
    by (simp add: request_success[where d = "JDict [(''response'', snapshot_3)]"]
        expired_data bot_def)
  show ?thesis
    using get_trade_offers_relogin[OF a b c]
    by (simp del: get_trade_offers.simps)
qed

end
